theory Spec2Isabelle
  imports Main "HOL-Library.AList" "HOL-Library.Log_Nat"
begin

section \<open>The Python values the services work on\<close>

text \<open>
  The module \<^verbatim>\<open>ducttape/services/performance.py\<close> is Python 2 code: strings are byte
  strings (\<open>string\<close>), integers are unbounded (\<open>int\<close>), and every exception the
  code can raise is a value of \<open>py_error\<close>; a computation that may raise returns
  \<open>py_error + 'a\<close> with \<open>Inl\<close> for the exception.
\<close>

datatype py_error =
  IndexError | ValueError | AttributeError | TypeError | ZeroDivisionError
  | OverflowError | AssertionError

definition bind :: "py_error + 'a \<Rightarrow> ('a \<Rightarrow> py_error + 'b) \<Rightarrow> py_error + 'b" where
  "bind m f = (case m of Inl e \<Rightarrow> Inl e | Inr v \<Rightarrow> f v)"

subsection \<open>Floats\<close>

text \<open>
  A Python float is an IEEE 754 binary64 value. The finite ones are rational numbers,
  and an operation on them is the exact operation followed by rounding to the nearest
  representable value, ties to even (\<open>round_double\<close>): the value is scaled to a
  significand \<open>m\<close> of at most 53 bits and an exponent \<open>e\<close> of at least \<open>-1074\<close>,
  and it overflows to an infinity beyond the largest float, \<open>(2 ^ 53 - 1) * 2 ^ 971\<close>.
  The sign of a zero is not kept: no operation of this module can observe it (a division
  by either zero raises).
\<close>

datatype pyfloat = Fin rat | PInf | NInf | NaN

definition pow2 :: "int \<Rightarrow> rat" where
  "pow2 e = (if 0 \<le> e then 2 ^ nat e else 1 / 2 ^ nat (- e))"

definition pow10 :: "int \<Rightarrow> rat" where
  "pow10 e = (if 0 \<le> e then 10 ^ nat e else 1 / 10 ^ nat (- e))"

text \<open>\<open>ilog2 x\<close> is the largest \<open>e\<close> with \<open>2 ^ e \<le> x\<close>, for a positive \<open>x\<close>.\<close>

definition ilog2 :: "rat \<Rightarrow> int" where
  "ilog2 x = (let (p, q) = quotient_of x; e = bitlen p - bitlen q
              in if pow2 e \<le> x then e else e - 1)"

definition round_half_even :: "rat \<Rightarrow> int" where
  "round_half_even y =
     (let f = \<lfloor>y\<rfloor>; r = y - of_int f
      in if r < 1 / 2 then f else if 1 / 2 < r then f + 1
         else if even f then f else f + 1)"

definition round_double :: "rat \<Rightarrow> pyfloat" where
  "round_double x =
     (if x = 0 then Fin 0
      else let a = \<bar>x\<bar>;
               e = max (ilog2 a - 52) (- 1074);
               m = round_half_even (a / pow2 e)
           in if 971 < e \<or> (e = 971 \<and> m = 2 ^ 53) then (if 0 < x then PInf else NInf)
              else Fin (if 0 < x then of_int m * pow2 e else - (of_int m * pow2 e)))"

text \<open>\<open>a * b\<close> on floats.\<close>

fun float_mul :: "pyfloat \<Rightarrow> pyfloat \<Rightarrow> pyfloat" where
  "float_mul NaN _ = NaN"
| "float_mul _ NaN = NaN"
| "float_mul (Fin a) (Fin b) = round_double (a * b)"
| "float_mul (Fin a) PInf = (if a = 0 then NaN else if 0 < a then PInf else NInf)"
| "float_mul (Fin a) NInf = (if a = 0 then NaN else if 0 < a then NInf else PInf)"
| "float_mul PInf (Fin b) = (if b = 0 then NaN else if 0 < b then PInf else NInf)"
| "float_mul NInf (Fin b) = (if b = 0 then NaN else if 0 < b then NInf else PInf)"
| "float_mul PInf PInf = PInf"
| "float_mul PInf NInf = NInf"
| "float_mul NInf PInf = NInf"
| "float_mul NInf NInf = PInf"

text \<open>\<open>a / b\<close> on floats: Python raises \<open>ZeroDivisionError\<close> when \<open>b == 0.0\<close>.\<close>

fun float_div :: "pyfloat \<Rightarrow> pyfloat \<Rightarrow> py_error + pyfloat" where
  "float_div a (Fin b) =
     (if b = 0 then Inl ZeroDivisionError
      else case a of
        Fin x \<Rightarrow> Inr (round_double (x / b))
      | PInf \<Rightarrow> Inr (if 0 < b then PInf else NInf)
      | NInf \<Rightarrow> Inr (if 0 < b then NInf else PInf)
      | NaN \<Rightarrow> Inr NaN)"
| "float_div a NaN = Inr NaN"
| "float_div (Fin x) _ = Inr (Fin 0)"
| "float_div _ _ = Inr NaN"

text \<open>
  The conversion of an integer operand of a mixed \<open>int / float\<close> division; an integer
  beyond the float range raises \<open>OverflowError\<close>.
\<close>

definition int_to_float :: "int \<Rightarrow> py_error + pyfloat" where
  "int_to_float n =
     (case round_double (of_int n) of Fin v \<Rightarrow> Inr (Fin v) | _ \<Rightarrow> Inl OverflowError)"

subsection \<open>String methods\<close>

text \<open>The characters \<^verbatim>\<open>str.split()\<close> and \<^verbatim>\<open>str.strip()\<close> treat as whitespace.\<close>

definition is_space :: "char \<Rightarrow> bool" where
  "is_space c = (c \<in> set [CHR '' '', CHR 0x09, CHR 0x0A, CHR 0x0B, CHR 0x0C, CHR 0x0D])"

text \<open>
  \<^verbatim>\<open>s.split()\<close>: the maximal runs of non-whitespace characters. The first argument
  of \<open>split_ws\<close> is the token read so far.
\<close>

fun split_ws :: "string \<Rightarrow> string \<Rightarrow> string list" where
  "split_ws cur [] = (if cur = [] then [] else [cur])"
| "split_ws cur (c # cs) =
     (if is_space c then (if cur = [] then split_ws [] cs else cur # split_ws [] cs)
      else split_ws (cur @ [c]) cs)"

definition py_split :: "string \<Rightarrow> string list" where
  "py_split s = split_ws [] s"

text \<open>
  \<^verbatim>\<open>s.split(sep)\<close> for a separator of one character: every occurrence separates, and
  empty fields are kept, so the result is never empty.
\<close>

fun split_sep :: "char \<Rightarrow> string \<Rightarrow> string \<Rightarrow> string list" where
  "split_sep sep cur [] = [cur]"
| "split_sep sep cur (c # cs) =
     (if c = sep then cur # split_sep sep [] cs else split_sep sep (cur @ [c]) cs)"

definition py_split_on :: "char \<Rightarrow> string \<Rightarrow> string list" where
  "py_split_on sep s = split_sep sep [] s"

definition py_strip :: "string \<Rightarrow> string" where
  "py_strip s = rev (dropWhile is_space (rev (dropWhile is_space s)))"

text \<open>\<^verbatim>\<open>s.startswith(p)\<close>.\<close>

definition startswith :: "string \<Rightarrow> string \<Rightarrow> bool" where
  "startswith s p = (take (length p) s = p)"

text \<open>\<^verbatim>\<open>s[:-1]\<close>: all but the last character; the empty string stays empty.\<close>

definition drop_last :: "string \<Rightarrow> string" where
  "drop_last s = butlast s"

text \<open>\<^verbatim>\<open>xs[i]\<close> for a constant \<open>i \<ge> 0\<close>: \<open>IndexError\<close> when the list is too short.\<close>

definition item :: "'a list \<Rightarrow> nat \<Rightarrow> py_error + 'a" where
  "item xs i = (if i < length xs then Inr (xs ! i) else Inl IndexError)"

subsection \<open>\<^verbatim>\<open>int(s)\<close> and \<^verbatim>\<open>float(s)\<close>\<close>

definition digit_val :: "char \<Rightarrow> int option" where
  "digit_val c = map_of (zip ''0123456789'' [0, 1, 2, 3, 4, 5, 6, 7, 8, 9]) c"

definition is_digit :: "char \<Rightarrow> bool" where
  "is_digit c = (digit_val c \<noteq> None)"

text \<open>The number a string of decimal digits denotes, after the digits in \<open>acc\<close>.\<close>

fun digits_val :: "int \<Rightarrow> string \<Rightarrow> int" where
  "digits_val acc [] = acc"
| "digits_val acc (c # cs) = digits_val (10 * acc + (case digit_val c of None \<Rightarrow> 0 | Some d \<Rightarrow> d)) cs"

text \<open>An optional sign: whether it is a minus, and the rest of the string.\<close>

fun take_sign :: "string \<Rightarrow> bool \<times> string" where
  "take_sign [] = (False, [])"
| "take_sign (c # cs) =
     (if c = CHR ''-'' then (True, cs) else if c = CHR ''+'' then (False, cs)
      else (False, c # cs))"

text \<open>
  \<^verbatim>\<open>int(s)\<close> in base 10: surrounding whitespace, an optional sign, one or more
  digits; anything else is a \<open>ValueError\<close>.
\<close>

definition py_int :: "string \<Rightarrow> py_error + int" where
  "py_int s =
     (let (neg, body) = take_sign (py_strip s)
      in if body = [] \<or> \<not> list_all is_digit body then Inl ValueError
         else Inr (if neg then - digits_val 0 body else digits_val 0 body))"

text \<open>The exponent part of a float literal: empty, or \<open>e\<close>, an optional sign and digits.\<close>

fun parse_exp :: "string \<Rightarrow> int option" where
  "parse_exp [] = Some 0"
| "parse_exp (c # cs) =
     (if c = CHR ''e'' \<or> c = CHR ''E'' then
        (let (neg, ds) = take_sign cs
         in if ds = [] \<or> \<not> list_all is_digit ds then None
            else Some (if neg then - digits_val 0 ds else digits_val 0 ds))
      else None)"

text \<open>
  An unsigned decimal literal: digits, an optional point and more digits (at least one
  digit in all), an optional exponent. The value is exact.
\<close>

definition parse_decimal :: "string \<Rightarrow> rat option" where
  "parse_decimal s =
     (let ip = takeWhile is_digit s; r1 = dropWhile is_digit s;
          has_point = (r1 \<noteq> [] \<and> hd r1 = CHR ''.'');
          fp = (if has_point then takeWhile is_digit (tl r1) else []);
          r2 = (if has_point then dropWhile is_digit (tl r1) else r1)
      in if ip = [] \<and> fp = [] then None
         else case parse_exp r2 of
                None \<Rightarrow> None
              | Some e \<Rightarrow> Some (of_int (digits_val 0 (ip @ fp)) * pow10 (e - int (length fp))))"

definition lower :: "string \<Rightarrow> string" where
  "lower s =
     map (\<lambda>c. let n = (of_char c :: nat) in if 65 \<le> n \<and> n \<le> 90 then char_of (n + 32) else c) s"

text \<open>
  \<^verbatim>\<open>float(s)\<close>: surrounding whitespace, an optional sign, then \<^verbatim>\<open>inf\<close>,
  \<^verbatim>\<open>infinity\<close> or \<^verbatim>\<open>nan\<close> in any case, or a decimal literal, which is rounded
  to the nearest float; anything else is a \<open>ValueError\<close>.
\<close>

definition py_float :: "string \<Rightarrow> py_error + pyfloat" where
  "py_float s =
     (let (neg, body) = take_sign (py_strip s)
      in if lower body = ''inf'' \<or> lower body = ''infinity'' then Inr (if neg then NInf else PInf)
         else if lower body = ''nan'' then Inr NaN
         else case parse_decimal body of
                None \<Rightarrow> Inl ValueError
              | Some v \<Rightarrow> Inr (round_double (if neg then - v else v)))"

section \<open>The summary parsers\<close>

text \<open>
  A metrics record is a Python dictionary from field names to numbers, kept as an
  association list in the order the keys were first assigned.
\<close>

datatype pyval = PyInt int | PyFloat pyfloat

type_synonym dict = "(string \<times> pyval) list"

text \<open>\<^verbatim>\<open>parts[i].split()[0]\<close>: the first whitespace-separated token of field \<open>i\<close>.\<close>

definition leading_token :: "string list \<Rightarrow> nat \<Rightarrow> py_error + string" where
  "leading_token parts i = bind (item parts i) (\<lambda>p. item (py_split p) 0)"

text \<open>\<^verbatim>\<open>parts[i].split('(')[1].split()[0]\<close>: the first token after the first parenthesis.\<close>

definition paren_token :: "string list \<Rightarrow> nat \<Rightarrow> py_error + string" where
  "paren_token parts i =
     bind (item parts i) (\<lambda>p. bind (item (py_split_on CHR ''('' p) 1) (\<lambda>q. item (py_split q) 0))"

text \<open>
  \<^verbatim>\<open>parse_stats(line)\<close>, the function nested in
  \<^verbatim>\<open>ProducerPerformanceService._worker\<close>. The entries of the dictionary literal are
  evaluated from the first to the last, and the first exception ends the evaluation.
\<close>

definition parse_stats :: "string \<Rightarrow> py_error + dict" where
  "parse_stats line =
     (let parts = py_split_on CHR '','' line in
      bind (bind (leading_token parts 0) py_int) (\<lambda>records.
      bind (bind (leading_token parts 1) py_float) (\<lambda>records_per_sec.
      bind (bind (paren_token parts 1) py_float) (\<lambda>mbps.
      bind (bind (leading_token parts 2) py_float) (\<lambda>latency_avg_ms.
      bind (bind (leading_token parts 3) py_float) (\<lambda>latency_max_ms.
      bind (bind (leading_token parts 4) py_float) (\<lambda>latency_50th_ms.
      bind (bind (leading_token parts 5) py_float) (\<lambda>latency_95th_ms.
      bind (bind (leading_token parts 6) py_float) (\<lambda>latency_99th_ms.
      bind (bind (leading_token parts 7) py_float) (\<lambda>latency_999th_ms.
      Inr [(''records'', PyInt records),
           (''records_per_sec'', PyFloat records_per_sec),
           (''mbps'', PyFloat mbps),
           (''latency_avg_ms'', PyFloat latency_avg_ms),
           (''latency_max_ms'', PyFloat latency_max_ms),
           (''latency_50th_ms'', PyFloat latency_50th_ms),
           (''latency_95th_ms'', PyFloat latency_95th_ms),
           (''latency_99th_ms'', PyFloat latency_99th_ms),
           (''latency_999th_ms'', PyFloat latency_999th_ms)]))))))))))"

text \<open>
  The module-level \<^verbatim>\<open>parse_performance_output(summary)\<close>: the same nine entries,
  then the three derived ones. \<^verbatim>\<open>results['records'] / results['records_per_sec']\<close>
  divides an integer by a float, so the integer is converted first.
\<close>

definition parse_performance_output :: "string \<Rightarrow> py_error + dict" where
  "parse_performance_output summary =
     (let parts = py_split_on CHR '','' summary in
      bind (bind (leading_token parts 0) py_int) (\<lambda>records.
      bind (bind (leading_token parts 1) py_float) (\<lambda>records_per_sec.
      bind (bind (paren_token parts 1) py_float) (\<lambda>mbps.
      bind (bind (leading_token parts 2) py_float) (\<lambda>latency_avg_ms.
      bind (bind (leading_token parts 3) py_float) (\<lambda>latency_max_ms.
      bind (bind (leading_token parts 4) py_float) (\<lambda>latency_50th_ms.
      bind (bind (leading_token parts 5) py_float) (\<lambda>latency_95th_ms.
      bind (bind (leading_token parts 6) py_float) (\<lambda>latency_99th_ms.
      bind (bind (leading_token parts 7) py_float) (\<lambda>latency_999th_ms.
      bind (bind (int_to_float records) (\<lambda>r. float_div r records_per_sec)) (\<lambda>quot.
      Inr (AList.update ''rate_mps'' (PyFloat records_per_sec)
          (AList.update ''rate_mbps'' (PyFloat mbps)
          (AList.update ''total_mb'' (PyFloat (float_mul mbps quot))
            [(''records'', PyInt records),
             (''records_per_sec'', PyFloat records_per_sec),
             (''mbps'', PyFloat mbps),
             (''latency_avg_ms'', PyFloat latency_avg_ms),
             (''latency_max_ms'', PyFloat latency_max_ms),
             (''latency_50th_ms'', PyFloat latency_50th_ms),
             (''latency_95th_ms'', PyFloat latency_95th_ms),
             (''latency_99th_ms'', PyFloat latency_99th_ms),
             (''latency_999th_ms'', PyFloat latency_999th_ms)]))))))))))))))"

section \<open>Services, commands and workers\<close>

subsection \<open>String formatting\<close>

fun nat_digits :: "nat \<Rightarrow> string" where
  "nat_digits n =
     (if n < 10 then [char_of (48 + n)] else nat_digits (n div 10) @ [char_of (48 + n mod 10)])"

declare nat_digits.simps [simp del]

text \<open>\<^verbatim>\<open>"%d" % n\<close> for an integer \<open>n\<close>.\<close>

definition fmt_d :: "int \<Rightarrow> string" where
  "fmt_d n = (if n < 0 then CHR ''-'' # nat_digits (nat (- n)) else nat_digits (nat n))"

text \<open>
  The \<^verbatim>\<open>settings\<close> mapping, as the list \<^verbatim>\<open>settings.items()\<close> yields, each key and
  value already converted by \<^verbatim>\<open>str\<close>. The loop
  \<^verbatim>\<open>for key,value in self.settings.items(): cmd += " %s=%s" % (str(key), str(value))\<close>
  appends one token for each entry.
\<close>

type_synonym settings = "(string \<times> string) list"

definition append_settings :: "string \<Rightarrow> settings \<Rightarrow> string" where
  "append_settings cmd st = foldl (\<lambda>c (key, val). c @ '' '' @ key @ ''='' @ val) cmd st"

subsection \<open>The services\<close>

text \<open>
  The collaborators of a service are outside this module; what a worker asks of them is
  kept: of a \<^verbatim>\<open>kafka\<close> service the results of \<^verbatim>\<open>bootstrap_servers()\<close> and
  \<^verbatim>\<open>zk.connect_setting()\<close>, of a REST proxy or a schema registry the result of
  \<^verbatim>\<open>url()\<close>, of a \<^verbatim>\<open>hadoop\<close> service whether it is a \<^verbatim>\<open>HadoopV1Service\<close>.
\<close>

record kafka =
  bootstrap_servers :: string
  zk_connect_setting :: string

text \<open>
  One constructor for each subclass of \<^verbatim>\<open>PerformanceService\<close>, holding the attributes
  its \<^verbatim>\<open>__init__\<close> sets, the entries of \<^verbatim>\<open>self.args\<close> in the order of the source:
  \<^item> \<open>ProducerPerformanceService kafka topic num_records record_size throughput settings intermediate_stats\<close>
  \<^item> \<open>RestProducerPerformanceService rest_url topic num_records record_size batch_size throughput settings\<close>
  \<^item> \<open>ConsumerPerformanceService kafka topic num_records throughput threads settings\<close>
  \<^item> \<open>RestConsumerPerformanceService rest_url topic num_records throughput settings\<close>
  \<^item> \<open>SchemaRegistryPerformanceService schema_registry_url subject num_schemas schemas_per_sec settings\<close>
  \<^item> \<open>HadoopPerformanceService hadoop_is_v1 settings\<close>
  \<^item> \<open>CamusPerformanceService broker_list hadoop_is_v1 schema_registry_url settings camus_props\<close>,
    where \<open>camus_props\<close> is the text \<^verbatim>\<open>create_camus_props\<close> makes of the template file
  \<^item> \<open>EndToEndLatencyService kafka topic num_records consumer_fetch_max_wait acks\<close>
\<close>

datatype service =
    ProducerPerformanceService kafka string int int int settings bool
  | RestProducerPerformanceService string string int int int int settings
  | ConsumerPerformanceService kafka string int int int settings
  | RestConsumerPerformanceService string string int int settings
  | SchemaRegistryPerformanceService string string int int settings
  | HadoopPerformanceService bool settings
  | CamusPerformanceService string bool string settings string
  | EndToEndLatencyService kafka string int int int

text \<open>The constructors \<^verbatim>\<open>__init__\<close> of the two REST services translate the throughput.\<close>

definition RestProducerPerformanceService_init ::
  "string \<Rightarrow> string \<Rightarrow> int \<Rightarrow> int \<Rightarrow> int \<Rightarrow> int \<Rightarrow> settings \<Rightarrow> service" where
  "RestProducerPerformanceService_init rest_url topic num_records record_size batch_size throughput st =
     RestProducerPerformanceService rest_url topic num_records record_size batch_size
       (if throughput > 0 then throughput else - batch_size) st"

definition RestConsumerPerformanceService_init ::
  "string \<Rightarrow> string \<Rightarrow> int \<Rightarrow> int \<Rightarrow> settings \<Rightarrow> service" where
  "RestConsumerPerformanceService_init rest_url topic num_records throughput st =
     RestConsumerPerformanceService rest_url topic num_records
       (if throughput > 0 then throughput else - 100) st"

definition ConsumerPerformanceService_init ::
  "kafka \<Rightarrow> string \<Rightarrow> int \<Rightarrow> int \<Rightarrow> int \<Rightarrow> settings \<Rightarrow> service" where
  "ConsumerPerformanceService_init k topic num_records throughput threads st =
     ConsumerPerformanceService k topic num_records throughput threads st"

subsection \<open>The command of each worker\<close>

text \<open>The string \<^verbatim>\<open>cmd\<close> that \<^verbatim>\<open>_worker\<close> builds and runs on its node.\<close>

fun worker_cmd :: "service \<Rightarrow> string" where
  "worker_cmd (ProducerPerformanceService k topic num_records record_size throughput st istats) =
     append_settings
       (''/opt/kafka/bin/kafka-run-class.sh org.apache.kafka.clients.tools.ProducerPerformance ''
        @ topic @ '' '' @ fmt_d num_records @ '' '' @ fmt_d record_size @ '' '' @ fmt_d throughput
        @ '' bootstrap.servers='' @ bootstrap_servers k) st"
| "worker_cmd (RestProducerPerformanceService rest_url topic num_records record_size batch_size throughput st) =
     append_settings
       (''/opt/kafka-rest/bin/kafka-rest-run-class io.confluent.kafkarest.tools.ProducerPerformance ''
        @ [CHR 0x27] @ rest_url @ [CHR 0x27] @ '' '' @ topic @ '' '' @ fmt_d num_records
        @ '' '' @ fmt_d record_size @ '' '' @ fmt_d batch_size @ '' '' @ fmt_d throughput) st"
| "worker_cmd (ConsumerPerformanceService k topic num_records throughput threads st) =
     append_settings
       (''/opt/kafka/bin/kafka-consumer-perf-test.sh ''
        @ ''--topic '' @ topic @ '' --messages '' @ fmt_d num_records
        @ '' --zookeeper '' @ zk_connect_setting k) st"
| "worker_cmd (RestConsumerPerformanceService rest_url topic num_records throughput st) =
     append_settings
       (''/opt/kafka-rest/bin/kafka-rest-run-class io.confluent.kafkarest.tools.ConsumerPerformance ''
        @ [CHR 0x27] @ rest_url @ [CHR 0x27] @ '' '' @ topic @ '' '' @ fmt_d num_records
        @ '' '' @ fmt_d throughput) st"
| "worker_cmd (SchemaRegistryPerformanceService url subject num_schemas schemas_per_sec st) =
     append_settings
       (''/opt/schema-registry/bin/schema-registry-run-class io.confluent.kafka.schemaregistry.tools.SchemaRegistryPerformance ''
        @ [CHR 0x27] @ url @ [CHR 0x27] @ '' '' @ subject @ '' '' @ fmt_d num_schemas
        @ '' '' @ fmt_d schemas_per_sec) st"
| "worker_cmd (HadoopPerformanceService is_v1 st) =
     append_settings
       (''HADOOP_CONF_DIR=/mnt /opt/hadoop-cdh/bin/hadoop jar ''
        @ ''/opt/hadoop-cdh/''
        @ (if is_v1 then ''share/hadoop/mapreduce1/hadoop-examples-2.5.0-mr1-cdh5.3.0.jar''
           else ''share/hadoop/mapreduce/hadoop-mapreduce-examples-2.5.0-cdh5.3.0.jar'')
        @ '' pi 2 10'') st"
| "worker_cmd (CamusPerformanceService broker_list is_v1 url st props) =
     append_settings
       (''HADOOP_CONF_DIR=/mnt /opt/hadoop-cdh/bin/hadoop jar /opt/camus/camus-example//target/camus-example-0.1.0-SNAPSHOT-shaded.jar com.linkedin.camus.etl.kafka.CamusJob ''
        @ ''-D schema.registry.url='' @ url @ '' -P /mnt/camus.properties ''
        @ ''-Dlog4j.configuration=file:/opt/camus/camus-example//log4j.xml'') st"
| "worker_cmd (EndToEndLatencyService k topic num_records consumer_fetch_max_wait acks) =
     ''/opt/kafka/bin/kafka-run-class.sh kafka.tools.TestEndToEndLatency ''
     @ bootstrap_servers k @ '' '' @ zk_connect_setting k @ '' '' @ topic @ '' '' @ fmt_d num_records @ '' ''
     @ fmt_d consumer_fetch_max_wait @ '' '' @ fmt_d acks"

text \<open>The first command of the Camus worker, which produces the test messages.\<close>

definition produce_cmd :: "string \<Rightarrow> string \<Rightarrow> string" where
  "produce_cmd broker_list url =
     ''java -jar /vagrant/avro-producer/avro-producer-1.0-SNAPSHOT-jar-with-dependencies.jar ''
     @ ''testAvro '' @ broker_list @ '' '' @ url @ '' '' @ fmt_d 10"

subsection \<open>Nodes and the events of a run\<close>

text \<open>
  A node is known by \<open>node_id\<close>; \<^verbatim>\<open>node.account.ssh_capture(cmd)\<close> yields the lines
  the remote process prints, a finite list once the process has exited.
\<close>

record node =
  node_id :: nat
  ssh_capture :: "string \<Rightarrow> string list"

text \<open>
  What a worker or the service does to the world outside its local variables, in the
  order it does it: commands run on a node, writes to the shared lists
  \<^verbatim>\<open>self.results\<close> and \<^verbatim>\<open>self.stats\<close> (with the index as the code computes it),
  \<^verbatim>\<open>self.logger.error\<close>, the calls to the \<^verbatim>\<open>hadoop\<close> service, files created, threads
  started and joined, and \<^verbatim>\<open>node.free()\<close>. Messages logged at \<^verbatim>\<open>debug\<close> and
  \<^verbatim>\<open>info\<close> level are left out.
\<close>

datatype event =
    SshCapture nat string
  | SetResult int dict
  | AppendStat int dict
  | LogError string
  | DistributeHdfsConfs nat
  | DistributeMr1Confs nat
  | DistributeYarnConfs nat
  | CreateFile nat string string
  | ThreadStart nat
  | ThreadJoin nat
  | NodeFree nat

subsection \<open>The workers\<close>

text \<open>
  The loop \<^verbatim>\<open>last = None; for line in ...: last = line\<close> of every worker that
  parses a summary.
\<close>

fun last_line :: "string list \<Rightarrow> string option \<Rightarrow> string option" where
  "last_line [] lastl = lastl"
| "last_line (line # rest) lastl = last_line rest (Some line)"

text \<open>
  The loop of the producer worker (lines 87 to 96): with intermediate sampling, a line
  that parses is appended to \<^verbatim>\<open>self.stats[idx-1]\<close> and any exception is swallowed by
  the bare \<^verbatim>\<open>except\<close>; every line becomes \<^verbatim>\<open>last\<close>. The result is the events of
  the loop and the final \<^verbatim>\<open>last\<close>.
\<close>

fun producer_loop :: "bool \<Rightarrow> int \<Rightarrow> string list \<Rightarrow> string option \<Rightarrow> event list \<times> string option" where
  "producer_loop istats i [] lastl = ([], lastl)"
| "producer_loop istats i (line # rest) lastl =
     (let sample = (if istats then (case parse_stats line of Inr d \<Rightarrow> [AppendStat i d] | Inl e \<Rightarrow> [])
                    else []);
          (evs, final) = producer_loop istats i rest (Some line)
      in (sample @ evs, final))"

text \<open>
  A function applied to \<^verbatim>\<open>last\<close>, which is \<^verbatim>\<open>None\<close> when the stream was empty:
  \<^verbatim>\<open>None.split\<close> raises \<open>AttributeError\<close>.
\<close>

definition on_last :: "(string \<Rightarrow> py_error + 'a) \<Rightarrow> string option \<Rightarrow> py_error + 'a" where
  "on_last f lastl = (case lastl of None \<Rightarrow> Inl AttributeError | Some l \<Rightarrow> f l)"

text \<open>The summary of the consumer worker (lines 171 to 176).\<close>

definition parse_consumer :: "string \<Rightarrow> py_error + dict" where
  "parse_consumer lastl =
     (let parts = py_split_on CHR '','' lastl in
      bind (bind (item parts 3) py_float) (\<lambda>total_mb.
      bind (bind (item parts 4) py_float) (\<lambda>mbps.
      bind (bind (item parts 6) py_float) (\<lambda>records_per_sec.
      Inr [(''total_mb'', PyFloat total_mb),
           (''mbps'', PyFloat mbps),
           (''records_per_sec'', PyFloat records_per_sec)]))))"

text \<open>The body of the loop of the end-to-end latency worker (lines 357 to 362).\<close>

definition latency_line :: "string \<Rightarrow> dict \<Rightarrow> py_error + dict" where
  "latency_line line results =
     bind (if startswith line ''Avg latency:''
           then bind (bind (item (py_split line) 2) py_float)
                  (\<lambda>v. Inr (AList.update ''latency_avg_ms'' (PyFloat v) results))
           else Inr results) (\<lambda>results.
     if startswith line ''Percentiles''
     then bind (bind (item (py_split line) 3) (\<lambda>t. py_float (drop_last t))) (\<lambda>v50.
          bind (bind (item (py_split line) 6) (\<lambda>t. py_float (drop_last t))) (\<lambda>v99.
          bind (bind (item (py_split line) 9) py_float) (\<lambda>v999.
          Inr (AList.update ''latency_999th_ms'' (PyFloat v999)
              (AList.update ''latency_99th_ms'' (PyFloat v99)
              (AList.update ''latency_50th_ms'' (PyFloat v50) results))))))
     else Inr results)"

fun latency_loop :: "string list \<Rightarrow> dict \<Rightarrow> py_error + dict" where
  "latency_loop [] results = Inr results"
| "latency_loop (line # rest) results = bind (latency_line line results) (latency_loop rest)"

text \<open>
  The end of a worker that stores a result: the events so far, then either the write
  to \<^verbatim>\<open>self.results[idx-1]\<close> or the exception that leaves \<^verbatim>\<open>_worker\<close>.
\<close>

definition store_result :: "event list \<Rightarrow> nat \<Rightarrow> py_error + dict \<Rightarrow> event list \<times> py_error option" where
  "store_result evs idx r =
     (case r of Inl e \<Rightarrow> (evs, Some e) | Inr d \<Rightarrow> (evs @ [SetResult (int idx - 1) d], None))"

text \<open>
  \<^verbatim>\<open>_worker(idx, node)\<close> of each service: the events it performs, in order, and the
  exception that leaves it, if any. Only the producer worker catches the exception of
  its final parse, and logs it.
\<close>

fun worker :: "service \<Rightarrow> nat \<Rightarrow> node \<Rightarrow> event list \<times> py_error option" where
  "worker (ProducerPerformanceService k topic num_records record_size throughput st istats) idx nd =
     (let cmd = worker_cmd (ProducerPerformanceService k topic num_records record_size throughput st istats);
          (evs, lastl) = producer_loop istats (int idx - 1) (ssh_capture nd cmd) None
      in case on_last parse_stats lastl of
           Inr d \<Rightarrow> (SshCapture (node_id nd) cmd # evs @ [SetResult (int idx - 1) d], None)
         | Inl e \<Rightarrow> (SshCapture (node_id nd) cmd # evs
                      @ [LogError (''Bad last line: '' @ (case lastl of None \<Rightarrow> ''None'' | Some l \<Rightarrow> l))], None))"
| "worker (RestProducerPerformanceService rest_url topic num_records record_size batch_size throughput st) idx nd =
     (let cmd = worker_cmd (RestProducerPerformanceService rest_url topic num_records record_size batch_size throughput st)
      in store_result [SshCapture (node_id nd) cmd] idx
           (on_last parse_stats (last_line (ssh_capture nd cmd) None)))"
| "worker (ConsumerPerformanceService k topic num_records throughput threads st) idx nd =
     (let cmd = worker_cmd (ConsumerPerformanceService k topic num_records throughput threads st)
      in store_result [SshCapture (node_id nd) cmd] idx
           (on_last parse_consumer (last_line (ssh_capture nd cmd) None)))"
| "worker (RestConsumerPerformanceService rest_url topic num_records throughput st) idx nd =
     (let cmd = worker_cmd (RestConsumerPerformanceService rest_url topic num_records throughput st)
      in store_result [SshCapture (node_id nd) cmd] idx
           (on_last parse_performance_output (last_line (ssh_capture nd cmd) None)))"
| "worker (SchemaRegistryPerformanceService url subject num_schemas schemas_per_sec st) idx nd =
     (let cmd = worker_cmd (SchemaRegistryPerformanceService url subject num_schemas schemas_per_sec st)
      in store_result [SshCapture (node_id nd) cmd] idx
           (on_last parse_performance_output (last_line (ssh_capture nd cmd) None)))"
| "worker (HadoopPerformanceService is_v1 st) idx nd =
     ([DistributeHdfsConfs (node_id nd),
       (if is_v1 then DistributeMr1Confs (node_id nd) else DistributeYarnConfs (node_id nd)),
       SshCapture (node_id nd) (worker_cmd (HadoopPerformanceService is_v1 st))], None)"
| "worker (CamusPerformanceService broker_list is_v1 url st props) idx nd =
     ([SshCapture (node_id nd) (produce_cmd broker_list url),
       DistributeHdfsConfs (node_id nd),
       (if is_v1 then DistributeMr1Confs (node_id nd) else DistributeYarnConfs (node_id nd)),
       CreateFile (node_id nd) ''/mnt/camus.properties'' props,
       SshCapture (node_id nd) (worker_cmd (CamusPerformanceService broker_list is_v1 url st props))], None)"
| "worker (EndToEndLatencyService k topic num_records consumer_fetch_max_wait acks) idx nd =
     (let cmd = worker_cmd (EndToEndLatencyService k topic num_records consumer_fetch_max_wait acks)
      in store_result [SshCapture (node_id nd) cmd] idx (latency_loop (ssh_capture nd cmd) []))"

section \<open>The life cycle of a run\<close>

text \<open>
  The attribute \<^verbatim>\<open>self.worker_threads\<close>: not yet assigned, \<^verbatim>\<open>None\<close>, or the list
  of the threads started, each with the arguments \<^verbatim>\<open>(idx, node)\<close> of its worker.
\<close>

datatype threads_attr = Unset | PyNone | Threads "(nat \<times> node) list"

text \<open>
  The state of a \<^verbatim>\<open>PerformanceService\<close> object, with the events the main thread has
  performed so far. The base class \<^verbatim>\<open>Service\<close> is outside this module: its
  \<^verbatim>\<open>start\<close> is taken to assign \<^verbatim>\<open>self.nodes\<close> (the nodes are an argument of
  \<open>start\<close> below), and its \<^verbatim>\<open>wait\<close> and \<^verbatim>\<open>stop\<close> to leave the attributes of this
  module alone.
\<close>

record run =
  service :: service
  nodes :: "node list"
  worker_threads :: threads_attr
  results :: "dict option list"
  stats :: "dict list list"
  trace :: "event list"

text \<open>\<^verbatim>\<open>enumerate(xs, 1)\<close>.\<close>

definition enumerate1 :: "'a list \<Rightarrow> (nat \<times> 'a) list" where
  "enumerate1 xs = zip [1..<Suc (length xs)] xs"

text \<open>\<^verbatim>\<open>PerformanceService.start\<close> (lines 21 to 35).\<close>

definition start :: "node list \<Rightarrow> run \<Rightarrow> run" where
  "start ns s =
     s\<lparr>nodes := ns,
       worker_threads := Threads (enumerate1 ns),
       results := replicate (length ns) None,
       stats := replicate (length ns) [],
       trace := trace s @ map (\<lambda>(idx, nd). ThreadStart idx) (enumerate1 ns)\<rparr>"

text \<open>
  The position a Python list index denotes: a negative index counts from the end, and
  an index out of range raises \<open>IndexError\<close>.
\<close>

definition list_index :: "'a list \<Rightarrow> int \<Rightarrow> py_error + nat" where
  "list_index xs i =
     (if 0 \<le> i \<and> i < int (length xs) then Inr (nat i)
      else if i < 0 \<and> - int (length xs) \<le> i then Inr (nat (int (length xs) + i))
      else Inl IndexError)"

text \<open>
  The effect of one event of a worker on the two shared lists. A write out of range
  raises \<open>IndexError\<close> in the worker and leaves the lists as they are.
\<close>

fun apply_event :: "event \<Rightarrow> dict option list \<times> dict list list \<Rightarrow> dict option list \<times> dict list list" where
  "apply_event (SetResult i d) (rs, sts) =
     (case list_index rs i of Inr j \<Rightarrow> (rs[j := Some d], sts) | Inl e \<Rightarrow> (rs, sts))"
| "apply_event (AppendStat i d) (rs, sts) =
     (case list_index sts i of Inr j \<Rightarrow> (rs, sts[j := sts ! j @ [d]]) | Inl e \<Rightarrow> (rs, sts))"
| "apply_event _ (rs, sts) = (rs, sts)"

text \<open>
  The workers run concurrently, so their events happen in some interleaving:
  \<open>is_interleaving xss zs\<close> holds when \<open>zs\<close> can be dealt out, in order, into the
  lists \<open>xss\<close>.
\<close>

fun is_interleaving :: "'a list list \<Rightarrow> 'a list \<Rightarrow> bool" where
  "is_interleaving xss [] = list_all (\<lambda>xs. xs = []) xss"
| "is_interleaving xss (z # zs) =
     list_ex (\<lambda>k. xss ! k \<noteq> [] \<and> hd (xss ! k) = z \<and> is_interleaving (xss[k := tl (xss ! k)]) zs)
       [0..<length xss]"

text \<open>The events of the workers of the threads of a run, one list for each thread.\<close>

definition worker_events :: "service \<Rightarrow> (nat \<times> node) list \<Rightarrow> event list list" where
  "worker_events svc ts = map (\<lambda>(idx, nd). fst (worker svc idx nd)) ts"

text \<open>
  \<^verbatim>\<open>PerformanceService.wait\<close> (lines 37 to 42). Iterating over \<^verbatim>\<open>None\<close> raises
  \<open>TypeError\<close>, reading an attribute never assigned raises \<open>AttributeError\<close>. When
  every thread has been joined, all the events of the workers have happened; the
  argument \<open>sched\<close> is the order in which they did, an interleaving of
  \<open>worker_events\<close>.
\<close>

definition wait :: "event list \<Rightarrow> run \<Rightarrow> py_error + run" where
  "wait sched s =
     (case worker_threads s of
        Unset \<Rightarrow> Inl AttributeError
      | PyNone \<Rightarrow> Inl TypeError
      | Threads ts \<Rightarrow>
          (let (rs, sts) = foldl (\<lambda>st ev. apply_event ev st) (results s, stats s) sched
           in Inr (s\<lparr>worker_threads := PyNone, results := rs, stats := sts,
                     trace := trace s @ map (\<lambda>(idx, w). ThreadJoin idx) (enumerate1 ts)\<rparr>)))"

text \<open>
  \<^verbatim>\<open>PerformanceService.stop\<close> (lines 44 to 49): the assertion, then
  \<^verbatim>\<open>node.free()\<close> for each node in the order of \<^verbatim>\<open>self.nodes\<close>.
\<close>

definition stop :: "run \<Rightarrow> py_error + run" where
  "stop s =
     (case worker_threads s of
        Unset \<Rightarrow> Inl AttributeError
      | Threads ts \<Rightarrow> Inl AssertionError
      | PyNone \<Rightarrow> Inr (s\<lparr>trace := trace s @ map (\<lambda>(idx, nd). NodeFree (node_id nd)) (enumerate1 (nodes s))\<rparr>))"

text \<open>
  The record a list of events leaves in a result slot that held \<open>r\<close>, when every write
  of the list goes to that slot: the last one written.
\<close>

fun final_result :: "event list \<Rightarrow> dict option \<Rightarrow> dict option" where
  "final_result [] r = r"
| "final_result (SetResult j d # evs) r = final_result evs (Some d)"
| "final_result (ev # evs) r = final_result evs r"

text \<open>
  The calls a caller can make on a service, and a history of them on one object. A
  call that raises has not changed the object (\<open>wait\<close> and \<open>stop\<close> raise before
  they assign anything), and the caller may go on.
\<close>

datatype call = Start "node list" | Wait "event list" | Stop

fun call_step :: "call \<Rightarrow> run \<Rightarrow> py_error + run" where
  "call_step (Start ns) s = Inr (start ns s)"
| "call_step (Wait sched) s = wait sched s"
| "call_step Stop s = stop s"

fun calls :: "call list \<Rightarrow> run \<Rightarrow> run" where
  "calls [] s = s"
| "calls (c # cs) s = calls cs (case call_step c s of Inl e \<Rightarrow> s | Inr s' \<Rightarrow> s')"

fun is_start :: "call \<Rightarrow> bool" where
  "is_start (Start ns) = True"
| "is_start c = False"

text \<open>
  An object on which \<open>start\<close> has not been called yet: \<^verbatim>\<open>worker_threads\<close> is not
  assigned, and the lists that do not exist yet are empty.
\<close>

definition fresh :: "service \<Rightarrow> run" where
  "fresh svc = \<lparr>service = svc, nodes = [], worker_threads = Unset, results = [], stats = [],
                trace = []\<rparr>"

subsection \<open>Concrete inputs\<close>

text \<open>A node whose remote process prints the given lines, whatever the command.\<close>

definition node_with :: "nat \<Rightarrow> string list \<Rightarrow> node" where
  "node_with n ls = \<lparr>node_id = n, ssh_capture = (\<lambda>cmd. ls)\<rparr>"

definition kafka0 :: kafka where
  "kafka0 = \<lparr>bootstrap_servers = ''k1:9092'', zk_connect_setting = ''zk1:2181''\<rparr>"

text \<open>
  A run of the end-to-end latency service on two nodes: the process of the first prints
  the two marker lines, the process of the second prints nothing. \<open>sched0\<close> is one
  order in which the events of the two workers can happen.
\<close>

definition latency_service :: service where
  "latency_service = EndToEndLatencyService kafka0 ''test'' 100 100 1"

definition two_nodes :: "node list" where
  "two_nodes = [node_with 0 [''Avg latency: 12.3 ms'',
                             ''Percentiles: 50th = 10.0, 99th = 30.0, 99.9th = 40.0''],
                node_with 1 []]"

definition sched0 :: "event list" where
  "sched0 = [SshCapture 0 (worker_cmd latency_service),
             SshCapture 1 (worker_cmd latency_service),
             SetResult 1 [],
             SetResult 0 [(''latency_avg_ms'', PyFloat (round_double (123 / 10))),
                          (''latency_50th_ms'', PyFloat (Fin 10)),
                          (''latency_99th_ms'', PyFloat (Fin 30)),
                          (''latency_999th_ms'', PyFloat (Fin 40))]]"

section \<open>Properties of the parsers\<close>

lemma bind_Inl [simp]: "bind (Inl e) f = Inl e"
  by (simp add: bind_def)

lemma bind_Inr [simp]: "bind (Inr v) f = f v"
  by (simp add: bind_def)

lemma isl_bind: "(\<And>v. m = Inr v \<Longrightarrow> isl (f v)) \<Longrightarrow> isl (bind m f)"
  by (cases m) simp_all

lemma bind_Inr_iff: "bind m f = Inr r \<longleftrightarrow> (\<exists>v. m = Inr v \<and> f v = Inr r)"
  by (cases m) simp_all

lemma leading_token_short: "length parts \<le> i \<Longrightarrow> leading_token parts i = Inl IndexError"
  by (simp add: leading_token_def item_def)

lemma parse_stats_short:
  assumes "length (py_split_on CHR '','' line) < 8"
  shows "isl (parse_stats line)"
proof -
  have "leading_token (py_split_on CHR '','' line) 7 = Inl IndexError"
    using assms by (simp add: leading_token_short)
  then show ?thesis
    unfolding parse_stats_def Let_def by (intro isl_bind) simp
qed

lemma parse_performance_output_short:
  assumes "length (py_split_on CHR '','' line) < 8"
  shows "isl (parse_performance_output line)"
proof -
  have "leading_token (py_split_on CHR '','' line) 7 = Inl IndexError"
    using assms by (simp add: leading_token_short)
  then show ?thesis
    unfolding parse_performance_output_def Let_def by (intro isl_bind) simp
qed

text \<open>A record a parser returns has all its keys: there is no partial record.\<close>

lemma parse_stats_keys:
  "parse_stats line = Inr d \<Longrightarrow>
   map fst d = [''records'', ''records_per_sec'', ''mbps'', ''latency_avg_ms'',
     ''latency_max_ms'', ''latency_50th_ms'', ''latency_95th_ms'', ''latency_99th_ms'',
     ''latency_999th_ms'']"
  unfolding parse_stats_def Let_def bind_Inr_iff by auto

lemma parse_performance_output_keys:
  "parse_performance_output line = Inr d \<Longrightarrow>
   map fst d = [''records'', ''records_per_sec'', ''mbps'', ''latency_avg_ms'',
     ''latency_max_ms'', ''latency_50th_ms'', ''latency_95th_ms'', ''latency_99th_ms'',
     ''latency_999th_ms'', ''total_mb'', ''rate_mbps'', ''rate_mps'']"
  unfolding parse_performance_output_def Let_def bind_Inr_iff by auto

text \<open>
  C4. The shared parser \<open>parse_performance_output\<close>, applied to the summary line of the
  specification, returns the record with \<open>records = 1000\<close>, \<open>records_per_sec = 500.0\<close>,
  \<open>mbps = 2.5\<close>, the six latencies \<open>10.0\<close>, \<open>50.0\<close>, \<open>8.0\<close>, \<open>20.0\<close>, \<open>30.0\<close>,
  \<open>40.0\<close>, and the derived \<open>total_mb = 2.5 * (1000 / 500.0) = 5.0\<close>,
  \<open>rate_mbps = 2.5\<close> and \<open>rate_mps = 500.0\<close>.
\<close>

theorem parse_performance_output_summary:
  "parse_performance_output
     ''1000 records, 500.0 records/sec (2.5 MB/sec), 10.0 ms avg, 50.0 ms max, 8.0 ms 50th, 20.0 ms 95th, 30.0 ms 99th, 40.0 ms 99.9th''
   = Inr [(''records'', PyInt 1000),
          (''records_per_sec'', PyFloat (Fin 500)),
          (''mbps'', PyFloat (Fin (5 / 2))),
          (''latency_avg_ms'', PyFloat (Fin 10)),
          (''latency_max_ms'', PyFloat (Fin 50)),
          (''latency_50th_ms'', PyFloat (Fin 8)),
          (''latency_95th_ms'', PyFloat (Fin 20)),
          (''latency_99th_ms'', PyFloat (Fin 30)),
          (''latency_999th_ms'', PyFloat (Fin 40)),
          (''total_mb'', PyFloat (Fin 5)),
          (''rate_mbps'', PyFloat (Fin (5 / 2))),
          (''rate_mps'', PyFloat (Fin 500))]"
  by code_simp

text \<open>
  C7. A line with fewer than 8 comma-separated fields makes the summary parser raise,
  the shared one and the one of the producer worker alike: no record is returned, so
  none that is partly filled.
\<close>

theorem parse_short_line_fails:
  "length (py_split_on CHR '','' line) < 8 \<Longrightarrow>
   (\<exists>e. parse_performance_output line = Inl e) \<and> (\<exists>e. parse_stats line = Inl e)"
  using parse_performance_output_short [of line] parse_stats_short [of line]
  by (auto simp: isl_def)

theorem parse_short_line_fails_witness:
  "length (py_split_on CHR '','' ''1000 records, 500.0 records/sec (2.5 MB/sec), 10.0 ms avg'') < 8
   \<and> (\<exists>e. parse_performance_output ''1000 records, 500.0 records/sec (2.5 MB/sec), 10.0 ms avg'' = Inl e)
   \<and> (\<exists>e. parse_stats ''1000 records, 500.0 records/sec (2.5 MB/sec), 10.0 ms avg'' = Inl e)"
proof -
  have short: "length (py_split_on CHR '','' ''1000 records, 500.0 records/sec (2.5 MB/sec), 10.0 ms avg'') < 8"
    by (simp add: py_split_on_def)
  from parse_short_line_fails [OF short] short show ?thesis
    by blast
qed

section \<open>Properties of the workers\<close>

lemma producer_loop_append:
  "producer_loop istats i (xs @ ys) l =
     (fst (producer_loop istats i xs l)
        @ fst (producer_loop istats i ys (snd (producer_loop istats i xs l))),
      snd (producer_loop istats i ys (snd (producer_loop istats i xs l))))"
  by (induction xs arbitrary: l) (simp_all add: Let_def split: prod.splits)

lemma producer_worker_returns:
  "snd (worker (ProducerPerformanceService k topic n rs t st istats) idx nd) = None"
  by (simp add: Let_def split: prod.splits sum.splits)

text \<open>
  C8. In the producer worker with intermediate sampling, a line that \<open>parse_stats\<close>
  rejects adds no event to the loop (no sample, no error), the lines after it are
  processed as they would be otherwise, and the line is the candidate for the last line
  from then on: the rest of the loop starts from \<open>Some line\<close>, and the loop ends with
  it when it is the final line.
\<close>

theorem intermediate_parse_failure_swallowed:
  "parse_stats line = Inl e \<Longrightarrow>
   producer_loop True i (pre @ line # post) l =
     (fst (producer_loop True i pre l) @ fst (producer_loop True i post (Some line)),
      snd (producer_loop True i post (Some line)))
   \<and> producer_loop True i (pre @ [line]) l = (fst (producer_loop True i pre l), Some line)"
proof -
  assume bad: "parse_stats line = Inl e"
  have step: "producer_loop True i (pre @ [line] @ rest) l =
     (fst (producer_loop True i pre l) @ fst (producer_loop True i rest (Some line)),
      snd (producer_loop True i rest (Some line)))" for rest
    unfolding producer_loop_append [of True i pre] producer_loop_append [of True i "[line]"]
    using bad by simp
  from step [of post] step [of "[]"] show ?thesis by simp
qed

theorem intermediate_parse_failure_swallowed_witness:
  "parse_stats ''INFO starting'' = Inl ValueError
   \<and> producer_loop True 0 ([''a''] @ ''INFO starting'' # [''b'']) None =
     (fst (producer_loop True 0 [''a''] None) @ fst (producer_loop True 0 [''b''] (Some ''INFO starting'')),
      snd (producer_loop True 0 [''b''] (Some ''INFO starting'')))
   \<and> producer_loop True 0 ([''a''] @ [''INFO starting'']) None =
     (fst (producer_loop True 0 [''a''] None), Some ''INFO starting'')"
proof -
  have bad: "parse_stats ''INFO starting'' = Inl ValueError"
    by code_simp
  from intermediate_parse_failure_swallowed [OF bad] bad show ?thesis
    by blast
qed

text \<open>
  C2. The worker of the REST producer, on a node whose process prints a last line that
  is no summary: the exception of the parse leaves \<open>worker\<close>, where the producer
  worker on the same node catches it, logs it and returns.
\<close>

theorem rest_producer_worker_propagates:
  "worker (RestProducerPerformanceService ''http://rest:8080'' ''test'' 100 10 5 5 []) 1
     (node_with 0 [''garbage''])
   = ([SshCapture 0 (worker_cmd (RestProducerPerformanceService ''http://rest:8080'' ''test'' 100 10 5 5 []))],
      Some ValueError)
   \<and> worker (ProducerPerformanceService kafka0 ''test'' 100 10 5 [] False) 1
     (node_with 0 [''garbage''])
   = ([SshCapture 0 (worker_cmd (ProducerPerformanceService kafka0 ''test'' 100 10 5 [] False)),
       LogError ''Bad last line: garbage''],
      None)"
  by code_simp

text \<open>
  C9, as the specification states it: on its two lines the extraction raises
  \<open>ValueError\<close>, since the fourth token of the second line is \<^verbatim>\<open>10.0ms,\<close>, of which
  \<^verbatim>\<open>[:-1]\<close> drops the comma only, and \<^verbatim>\<open>float("10.0ms")\<close> fails.
\<close>

theorem latency_loop_spec_lines_raise:
  "latency_loop [''Avg latency: 12.3 ms'',
                 ''Percentiles: 50th = 10.0ms, 99th = 30.0ms, 99.9th = 40.0''] []
   = Inl ValueError"
  by code_simp

text \<open>
  C9, amended: when the percentiles are followed by a comma alone, as in
  \<^verbatim>\<open>Percentiles: 50th = 10.0, 99th = 30.0, 99.9th = 40.0\<close>, the extraction yields the
  record with \<open>latency_avg_ms = 12.3\<close> (the float nearest to it),
  \<open>latency_50th_ms = 10.0\<close>, \<open>latency_99th_ms = 30.0\<close> and \<open>latency_999th_ms = 40.0\<close>.
\<close>

theorem latency_loop_comma_lines:
  "latency_loop [''Avg latency: 12.3 ms'',
                 ''Percentiles: 50th = 10.0, 99th = 30.0, 99.9th = 40.0''] []
   = Inr [(''latency_avg_ms'', PyFloat (round_double (123 / 10))),
          (''latency_50th_ms'', PyFloat (Fin 10)),
          (''latency_99th_ms'', PyFloat (Fin 30)),
          (''latency_999th_ms'', PyFloat (Fin 40))]"
  by code_simp

section \<open>Properties of the commands\<close>

text \<open>
  C3. A requested throughput \<open>t \<le> 0\<close> reaches the command of the REST producer as
  \<open>- batch_size\<close> and the command of the REST consumer as \<open>-100\<close>; a throughput
  \<open>t > 0\<close> reaches both unchanged.
\<close>

theorem negative_throughput_translation:
  "(t \<le> 0 \<longrightarrow>
      worker_cmd (RestProducerPerformanceService_init url topic n rs b t st) =
        append_settings
          (''/opt/kafka-rest/bin/kafka-rest-run-class io.confluent.kafkarest.tools.ProducerPerformance ''
           @ [CHR 0x27] @ url @ [CHR 0x27] @ '' '' @ topic @ '' '' @ fmt_d n @ '' '' @ fmt_d rs
           @ '' '' @ fmt_d b @ '' '' @ fmt_d (- b)) st
      \<and> worker_cmd (RestConsumerPerformanceService_init url topic n t st) =
        append_settings
          (''/opt/kafka-rest/bin/kafka-rest-run-class io.confluent.kafkarest.tools.ConsumerPerformance ''
           @ [CHR 0x27] @ url @ [CHR 0x27] @ '' '' @ topic @ '' '' @ fmt_d n
           @ '' '' @ fmt_d (- 100)) st)
   \<and> (0 < t \<longrightarrow>
      worker_cmd (RestProducerPerformanceService_init url topic n rs b t st) =
        append_settings
          (''/opt/kafka-rest/bin/kafka-rest-run-class io.confluent.kafkarest.tools.ProducerPerformance ''
           @ [CHR 0x27] @ url @ [CHR 0x27] @ '' '' @ topic @ '' '' @ fmt_d n @ '' '' @ fmt_d rs
           @ '' '' @ fmt_d b @ '' '' @ fmt_d t) st
      \<and> worker_cmd (RestConsumerPerformanceService_init url topic n t st) =
        append_settings
          (''/opt/kafka-rest/bin/kafka-rest-run-class io.confluent.kafkarest.tools.ConsumerPerformance ''
           @ [CHR 0x27] @ url @ [CHR 0x27] @ '' '' @ topic @ '' '' @ fmt_d n
           @ '' '' @ fmt_d t) st)"
  by (simp add: RestProducerPerformanceService_init_def RestConsumerPerformanceService_init_def)

theorem negative_throughput_translation_witness:
  "(0::int) \<le> 0
   \<and> worker_cmd (RestProducerPerformanceService_init ''http://rest:8080'' ''test'' 100 10 5 0 [(''acks'', ''1'')]) =
       ''/opt/kafka-rest/bin/kafka-rest-run-class io.confluent.kafkarest.tools.ProducerPerformance ''
       @ [CHR 0x27] @ ''http://rest:8080'' @ [CHR 0x27] @ '' test 100 10 5 -5 acks=1''
   \<and> worker_cmd (RestConsumerPerformanceService_init ''http://rest:8080'' ''test'' 100 0 [(''acks'', ''1'')]) =
       ''/opt/kafka-rest/bin/kafka-rest-run-class io.confluent.kafkarest.tools.ConsumerPerformance ''
       @ [CHR 0x27] @ ''http://rest:8080'' @ [CHR 0x27] @ '' test 100 -100 acks=1''
   \<and> (0::int) < 7
   \<and> worker_cmd (RestProducerPerformanceService_init ''http://rest:8080'' ''test'' 100 10 5 7 [(''acks'', ''1'')]) =
       ''/opt/kafka-rest/bin/kafka-rest-run-class io.confluent.kafkarest.tools.ProducerPerformance ''
       @ [CHR 0x27] @ ''http://rest:8080'' @ [CHR 0x27] @ '' test 100 10 5 7 acks=1''
   \<and> worker_cmd (RestConsumerPerformanceService_init ''http://rest:8080'' ''test'' 100 7 [(''acks'', ''1'')]) =
       ''/opt/kafka-rest/bin/kafka-rest-run-class io.confluent.kafkarest.tools.ConsumerPerformance ''
       @ [CHR 0x27] @ ''http://rest:8080'' @ [CHR 0x27] @ '' test 100 7 acks=1''"
proof -
  have f: "fmt_d (- 5) = ''-5''" "fmt_d 100 = ''100''" "fmt_d 10 = ''10''" "fmt_d 5 = ''5''"
     "fmt_d 7 = ''7''" "fmt_d (- 100) = ''-100''"
    by code_simp+
  from negative_throughput_translation [of 0 "''http://rest:8080''" "''test''" 100 10 5 "[(''acks'', ''1'')]"]
    negative_throughput_translation [of 7 "''http://rest:8080''" "''test''" 100 10 5 "[(''acks'', ''1'')]"]
  show ?thesis
    by (simp add: f append_settings_def)
qed

text \<open>
  C10. The command of the consumer worker does not depend on the throughput and the
  number of threads the service was constructed with, and so neither does anything
  else the worker does.
\<close>

theorem consumer_cmd_independent:
  "worker_cmd (ConsumerPerformanceService_init k topic n throughput1 threads1 st) =
   worker_cmd (ConsumerPerformanceService_init k topic n throughput2 threads2 st)
   \<and> worker (ConsumerPerformanceService_init k topic n throughput1 threads1 st) idx nd =
     worker (ConsumerPerformanceService_init k topic n throughput2 threads2 st) idx nd"
  by (simp add: ConsumerPerformanceService_init_def)

section \<open>Properties of the life cycle\<close>

lemma length_enumerate1 [simp]: "length (enumerate1 xs) = length xs"
  by (simp add: enumerate1_def del: upt_Suc)

lemma map_snd_enumerate1: "map snd (enumerate1 xs) = xs"
  unfolding enumerate1_def by (rule map_snd_zip) (simp del: upt_Suc)

lemma map_enumerate1: "map (\<lambda>(idx, x). f x) (enumerate1 xs) = map f xs"
proof -
  have "map (\<lambda>(idx, x). f x) (enumerate1 xs) = map f (map snd (enumerate1 xs))"
    by (simp add: case_prod_unfold comp_def)
  then show ?thesis
    by (simp only: map_snd_enumerate1)
qed

lemma nth_enumerate1: "i < length xs \<Longrightarrow> enumerate1 xs ! i = (Suc i, xs ! i)"
  by (simp add: enumerate1_def del: upt_Suc)

lemma producer_loop_events:
  "producer_loop istats i ls l = (evs, l') \<Longrightarrow> ev \<in> set evs \<Longrightarrow> \<exists>d. ev = AppendStat i d"
  by (induction ls arbitrary: l evs l')
     (auto simp: Let_def split: prod.splits sum.splits if_splits)

lemma worker_writes_own_slot:
  "SetResult j d \<in> set (fst (worker svc idx nd)) \<Longrightarrow> j = int idx - 1"
  by (cases svc)
     (auto simp: Let_def store_result_def simp del: worker_cmd.simps
           split: prod.splits sum.splits if_splits dest: producer_loop_events)

lemma worker_never_frees: "NodeFree n \<notin> set (fst (worker svc idx nd))"
  by (cases svc)
     (auto simp: Let_def store_result_def simp del: worker_cmd.simps
           split: prod.splits sum.splits if_splits dest: producer_loop_events)

lemma length_apply_event:
  "apply_event ev (rs, sts) = (rs', sts') \<Longrightarrow> length rs' = length rs"
  by (cases ev) (auto split: sum.splits)

lemma list_index_nat: "k < length rs \<Longrightarrow> list_index rs (int k) = Inr k"
  by (simp add: list_index_def)

lemma apply_event_own:
  assumes "apply_event ev (rs, sts) = (rs', sts')" "k < length rs"
    and "\<And>j d. ev = SetResult j d \<Longrightarrow> j = int k"
  shows "rs' ! k = final_result [ev] (rs ! k)"
  using assms by (cases ev) (auto simp: list_index_nat split: sum.splits)

lemma apply_event_other:
  assumes "apply_event ev (rs, sts) = (rs', sts')" "k < length rs" "i \<noteq> k"
    and "\<And>j d. ev = SetResult j d \<Longrightarrow> j = int k"
  shows "rs' ! i = rs ! i"
  using assms by (cases ev) (auto simp: list_index_nat split: sum.splits)

lemma final_result_Cons: "final_result (ev # evs) r = final_result evs (final_result [ev] r)"
  by (cases ev) simp_all


lemma interleaving_results:
  assumes "is_interleaving xss zs" "length rs = length xss"
    and "\<And>k j d. k < length xss \<Longrightarrow> SetResult j d \<in> set (xss ! k) \<Longrightarrow> j = int k"
    and "foldl (\<lambda>st ev. apply_event ev st) (rs, sts) zs = (rs', sts')"
  shows "length rs' = length rs \<and> (\<forall>i<length xss. rs' ! i = final_result (xss ! i) (rs ! i))"
  using assms
proof (induction zs arbitrary: xss rs sts)
  case Nil
  then have "\<And>i. i < length xss \<Longrightarrow> xss ! i = []"
    by (simp add: list_all_length)
  with Nil show ?case by auto
next
  case (Cons z zs)
  from Cons.prems(1) obtain k where k: "k < length xss" "xss ! k \<noteq> []" "hd (xss ! k) = z"
    and rest: "is_interleaving (xss[k := tl (xss ! k)]) zs"
    by (auto simp: list_ex_iff)
  obtain rs1 sts1 where step: "apply_event z (rs, sts) = (rs1, sts1)"
    by (cases "apply_event z (rs, sts)")
  have xk: "xss ! k = z # tl (xss ! k)"
    using k by (cases "xss ! k") auto
  have own_z: "j = int k" if "z = SetResult j d" for j d
  proof -
    have "SetResult j d \<in> set (xss ! k)"
      using xk that by (metis list.set_intros(1))
    with Cons.prems(3) k(1) show ?thesis by blast
  qed
  have len1: "length rs1 = length rs"
    using length_apply_event [OF step] .
  have krs: "k < length rs"
    using k(1) Cons.prems(2) by simp
  let ?xss = "xss[k := tl (xss ! k)]"
  have IH: "length rs' = length rs1 \<and> (\<forall>i<length ?xss. rs' ! i = final_result (?xss ! i) (rs1 ! i))"
  proof (rule Cons.IH [OF rest])
    show "length rs1 = length ?xss"
      using len1 Cons.prems(2) by simp
    show "j = int k'" if "k' < length ?xss" "SetResult j d \<in> set (?xss ! k')" for k' j d
    proof (cases "k' = k")
      case True
      with that k(1) have "SetResult j d \<in> set (tl (xss ! k))" by simp
      then have "SetResult j d \<in> set (xss ! k)"
        using xk by (metis list.set_intros(2))
      with Cons.prems(3) k(1) True show ?thesis by blast
    next
      case False
      with that have "SetResult j d \<in> set (xss ! k')" "k' < length xss" by simp_all
      with Cons.prems(3) show ?thesis by blast
    qed
    show "foldl (\<lambda>st ev. apply_event ev st) (rs1, sts1) zs = (rs', sts')"
      using Cons.prems(4) step by simp
  qed
  have "rs' ! i = final_result (xss ! i) (rs ! i)" if "i < length xss" for i
  proof (cases "i = k")
    case True
    have "rs' ! k = final_result (tl (xss ! k)) (rs1 ! k)"
      using IH k(1) by simp
    also have "rs1 ! k = final_result [z] (rs ! k)"
      using apply_event_own [OF step krs own_z] by simp
    also have "final_result (tl (xss ! k)) (final_result [z] (rs ! k)) = final_result (xss ! k) (rs ! k)"
      using final_result_Cons [of z "tl (xss ! k)" "rs ! k"] xk by simp
    finally show ?thesis using True by simp
  next
    case False
    have "rs' ! i = final_result (xss ! i) (rs1 ! i)"
      using IH that False by simp
    moreover have "rs1 ! i = rs ! i"
      using apply_event_other [OF step krs False own_z] by simp
    ultimately show ?thesis by simp
  qed
  with IH len1 show ?case by simp
qed

lemma worker_events_own:
  assumes "k < length ns" "SetResult j d \<in> set (worker_events svc (enumerate1 ns) ! k)"
  shows "j = int k"
proof -
  have "worker_events svc (enumerate1 ns) ! k = fst (worker svc (Suc k) (ns ! k))"
    using assms(1) by (simp add: worker_events_def nth_enumerate1)
  with assms(2) worker_writes_own_slot [of j d svc "Suc k" "ns ! k"] show ?thesis by simp
qed

lemma calls_append: "calls (xs @ ys) s = calls ys (calls xs s)"
  by (induction xs arbitrary: s) simp_all

lemma start_not_waited: "worker_threads (start ns s) \<noteq> PyNone"
  by (simp add: start_def)

lemma wait_Inr: "wait sched s = Inr s1 \<Longrightarrow> worker_threads s1 = PyNone \<and> nodes s1 = nodes s"
  by (auto simp: wait_def Let_def split: threads_attr.splits prod.splits)

lemma stop_Inr:
  "stop s = Inr s2 \<Longrightarrow>
   worker_threads s = PyNone \<and> worker_threads s2 = PyNone
   \<and> trace s2 = trace s @ map (\<lambda>nd. NodeFree (node_id nd)) (nodes s)"
  by (auto simp: stop_def map_enumerate1 split: threads_attr.splits)

lemma wait_trace:
  "wait sched s = Inr s1 \<Longrightarrow> NodeFree n \<in> set (trace s1) \<longleftrightarrow> NodeFree n \<in> set (trace s)"
  by (auto simp: wait_def Let_def split: threads_attr.splits prod.splits)

lemma start_trace: "NodeFree n \<in> set (trace (start ns s)) \<longleftrightarrow> NodeFree n \<in> set (trace s)"
  by (auto simp: start_def)

lemma waited_history:
  assumes "worker_threads s0 \<noteq> PyNone"
  shows "worker_threads (calls cs s0) = PyNone \<Longrightarrow>
    \<exists>pre sched post s1. cs = pre @ Wait sched # post \<and> wait sched (calls pre s0) = Inr s1
      \<and> \<not> list_ex is_start post"
proof (induction cs rule: rev_induct)
  case Nil
  with assms show ?case by simp
next
  case (snoc c cs)
  let ?s = "calls cs s0"
  have unfold: "calls (cs @ [c]) s0 = (case call_step c ?s of Inl e \<Rightarrow> ?s | Inr s' \<Rightarrow> s')"
    by (simp add: calls_append)
  show ?case
  proof (cases c)
    case (Start ns)
    with snoc.prems unfold start_not_waited show ?thesis by simp
  next
    case (Wait sched)
    show ?thesis
    proof (cases "wait sched ?s")
      case (Inr s1)
      then have "cs @ [c] = cs @ Wait sched # [] \<and> wait sched (calls cs s0) = Inr s1 \<and> \<not> list_ex is_start []"
        using Wait by simp
      then show ?thesis by blast
    next
      case (Inl e)
      with snoc.prems unfold Wait have "worker_threads ?s = PyNone" by simp
      from snoc.IH [OF this] obtain pre sched0 post s1 where
        h: "cs = pre @ Wait sched0 # post" "wait sched0 (calls pre s0) = Inr s1" "\<not> list_ex is_start post"
        by blast
      then have "cs @ [c] = pre @ Wait sched0 # (post @ [c]) \<and> wait sched0 (calls pre s0) = Inr s1
          \<and> \<not> list_ex is_start (post @ [c])"
        using Wait by simp
      then show ?thesis by blast
    qed
  next
    case Stop
    have "worker_threads ?s = PyNone"
    proof (cases "stop ?s")
      case (Inl e)
      with snoc.prems unfold Stop show ?thesis by simp
    next
      case (Inr s2)
      then show ?thesis using stop_Inr by blast
    qed
    from snoc.IH [OF this] obtain pre sched0 post s1 where
      h: "cs = pre @ Wait sched0 # post" "wait sched0 (calls pre s0) = Inr s1" "\<not> list_ex is_start post"
      by blast
    then have "cs @ [c] = pre @ Wait sched0 # (post @ [c]) \<and> wait sched0 (calls pre s0) = Inr s1
        \<and> \<not> list_ex is_start (post @ [c])"
      using Stop by simp
    then show ?thesis by blast
  qed
qed

lemma run_trace:
  "trace (calls [Start ns, Wait sched, Stop] (fresh svc)) =
     map (\<lambda>(idx, nd). ThreadStart idx) (enumerate1 ns)
     @ map (\<lambda>(idx, w). ThreadJoin idx) (enumerate1 (enumerate1 ns))
     @ map (\<lambda>nd. NodeFree (node_id nd)) ns"
proof -
  let ?s = "start ns (fresh svc)"
  obtain rs sts where fold: "foldl (\<lambda>st ev. apply_event ev st) (results ?s, stats ?s) sched = (rs, sts)"
    by (cases "foldl (\<lambda>st ev. apply_event ev st) (results ?s, stats ?s) sched")
  let ?w = "?s\<lparr>worker_threads := PyNone, results := rs, stats := sts,
             trace := trace ?s @ map (\<lambda>(idx, w). ThreadJoin idx) (enumerate1 (enumerate1 ns))\<rparr>"
  have w: "wait sched ?s = Inr ?w"
    using fold by (simp add: wait_def start_def)
  have e: "stop ?w = Inr (?w\<lparr>trace := trace ?w @ map (\<lambda>nd. NodeFree (node_id nd)) (nodes ?w)\<rparr>)"
    by (simp add: stop_def map_enumerate1)
  have "calls [Start ns, Wait sched, Stop] (fresh svc) =
      ?w\<lparr>trace := trace ?w @ map (\<lambda>nd. NodeFree (node_id nd)) (nodes ?w)\<rparr>"
    by (simp add: w e)
  then show ?thesis
    by (simp add: start_def fresh_def)
qed

text \<open>
  C1. \<open>start\<close> starts one worker thread for each node, numbered from 1 in the order of
  the node list. Whatever the order in which the events of the workers happen, after
  \<open>wait\<close> has returned there are as many result slots as nodes, the slot \<open>i\<close> (counted
  from 0) holds what the worker \<open>i + 1\<close>, the one of the node \<open>i + 1\<close>, has written
  last, or nothing if it has written nothing, and every write of that worker goes to the
  slot \<open>i\<close>: no slot is written by the worker of another node.
\<close>

theorem result_slots_aligned:
  assumes "is_interleaving (worker_events (service s) (enumerate1 ns)) sched"
  shows "worker_threads (start ns s) = Threads (enumerate1 ns)
      \<and> length (enumerate1 ns) = length ns
      \<and> (\<exists>s'. wait sched (start ns s) = Inr s'
      \<and> length (results s') = length ns
      \<and> (\<forall>i<length ns. results s' ! i = final_result (fst (worker (service s) (Suc i) (ns ! i))) None)
      \<and> (\<forall>i<length ns. \<forall>j d. SetResult j d \<in> set (fst (worker (service s) (Suc i) (ns ! i))) \<longrightarrow> j = int i))"
proof -
  let ?xss = "worker_events (service s) (enumerate1 ns)"
  let ?rs = "replicate (length ns) (None :: dict option)"
  let ?sts = "replicate (length ns) ([] :: dict list)"
  obtain rs' sts' where fold: "foldl (\<lambda>st ev. apply_event ev st) (?rs, ?sts) sched = (rs', sts')"
    by (cases "foldl (\<lambda>st ev. apply_event ev st) (?rs, ?sts) sched")
  have len: "length ?xss = length ns"
    by (simp add: worker_events_def)
  have "length rs' = length ?rs \<and> (\<forall>i<length ?xss. rs' ! i = final_result (?xss ! i) (?rs ! i))"
  proof (rule interleaving_results [OF assms _ _ fold])
    show "length ?rs = length ?xss" using len by simp
    show "j = int k" if "k < length ?xss" "SetResult j d \<in> set (?xss ! k)" for k j d
      using that worker_events_own len by auto
  qed
  then have res: "length rs' = length ns"
    "\<And>i. i < length ns \<Longrightarrow> rs' ! i = final_result (fst (worker (service s) (Suc i) (ns ! i))) None"
    using len by (simp_all add: worker_events_def nth_enumerate1)
  have "wait sched (start ns s) =
      Inr ((start ns s)\<lparr>worker_threads := PyNone, results := rs', stats := sts',
             trace := trace (start ns s) @ map (\<lambda>(idx, w). ThreadJoin idx) (enumerate1 (enumerate1 ns))\<rparr>)"
    using fold by (simp add: wait_def start_def)
  moreover have "j = int i" if "i < length ns" "SetResult j d \<in> set (fst (worker (service s) (Suc i) (ns ! i)))" for i j d
    using worker_writes_own_slot [OF that(2)] by simp
  ultimately have "\<exists>s'. wait sched (start ns s) = Inr s'
      \<and> length (results s') = length ns
      \<and> (\<forall>i<length ns. results s' ! i = final_result (fst (worker (service s) (Suc i) (ns ! i))) None)
      \<and> (\<forall>i<length ns. \<forall>j d. SetResult j d \<in> set (fst (worker (service s) (Suc i) (ns ! i))) \<longrightarrow> j = int i)"
    using res by auto
  moreover have "worker_threads (start ns s) = Threads (enumerate1 ns)"
    by (simp add: start_def)
  ultimately show ?thesis
    by simp
qed

theorem result_slots_aligned_witness:
  "is_interleaving (worker_events (service (fresh latency_service)) (enumerate1 two_nodes)) sched0
   \<and> worker_threads (start two_nodes (fresh latency_service)) = Threads (enumerate1 two_nodes)
   \<and> length (enumerate1 two_nodes) = length two_nodes
   \<and> (\<exists>s'. wait sched0 (start two_nodes (fresh latency_service)) = Inr s'
      \<and> length (results s') = length two_nodes
      \<and> (\<forall>i<length two_nodes. results s' ! i =
            final_result (fst (worker (service (fresh latency_service)) (Suc i) (two_nodes ! i))) None)
      \<and> (\<forall>i<length two_nodes. \<forall>j d.
            SetResult j d \<in> set (fst (worker (service (fresh latency_service)) (Suc i) (two_nodes ! i)))
            \<longrightarrow> j = int i)
      \<and> results s' = [Some [(''latency_avg_ms'', PyFloat (round_double (123 / 10))),
                             (''latency_50th_ms'', PyFloat (Fin 10)),
                             (''latency_99th_ms'', PyFloat (Fin 30)),
                             (''latency_999th_ms'', PyFloat (Fin 40))],
                       Some []])"
proof -
  have il: "is_interleaving (worker_events (service (fresh latency_service)) (enumerate1 two_nodes)) sched0"
    by code_simp
  have ev: "\<exists>s'. wait sched0 (start two_nodes (fresh latency_service)) = Inr s'
      \<and> results s' = [Some [(''latency_avg_ms'', PyFloat (round_double (123 / 10))),
                             (''latency_50th_ms'', PyFloat (Fin 10)),
                             (''latency_99th_ms'', PyFloat (Fin 30)),
                             (''latency_999th_ms'', PyFloat (Fin 40))],
                       Some []]"
    by (simp add: wait_def start_def two_nodes_def sched0_def list_index_def fresh_def)
  from result_slots_aligned [OF il] il ev show ?thesis
    by (metis sum.inject(2))
qed

text \<open>
  C5, as the specification states it: a second \<open>wait\<close> after the first has returned
  raises \<open>TypeError\<close>, from iterating over \<^verbatim>\<open>None\<close>, and not an assertion.
\<close>

theorem second_wait_no_assertion:
  "bind (wait sched0 (start two_nodes (fresh latency_service))) (wait []) = Inl TypeError"
  by (simp add: wait_def start_def Let_def split: prod.splits)

text \<open>
  C5, amended: on a run that has been started, \<open>stop\<close> before \<open>wait\<close> fails its
  assertion; the first \<open>wait\<close> returns, and a second \<open>wait\<close> raises \<open>TypeError\<close>.
\<close>

theorem stop_before_wait_asserts:
  "stop (start ns s) = Inl AssertionError
   \<and> (\<exists>s1. wait sched (start ns s) = Inr s1 \<and> wait sched' s1 = Inl TypeError)"
  by (simp add: stop_def start_def wait_def Let_def split: prod.splits)

text \<open>
  C6. No worker frees a node; \<open>start\<close> and \<open>wait\<close> free none; a \<open>stop\<close> that returns
  found \<^verbatim>\<open>worker_threads\<close> to be \<^verbatim>\<open>None\<close> and has freed every node once, in the
  order of the node list; and in any history of calls on an object that has not been
  waited for at first, a \<open>stop\<close> returns only if a \<open>wait\<close> has returned before it with no
  \<open>start\<close> in between. In the run \<open>start\<close>, \<open>wait\<close>, \<open>stop\<close> of a new object, the main
  thread starts the threads, joins them all, and then frees each node once.
\<close>

theorem nodes_freed_only_by_stop_after_wait:
  "NodeFree n \<notin> set (fst (worker svc idx nd))
   \<and> (NodeFree n \<in> set (trace (start ns s)) \<longleftrightarrow> NodeFree n \<in> set (trace s))
   \<and> (wait sched sw = Inr s1 \<longrightarrow> (NodeFree n \<in> set (trace s1) \<longleftrightarrow> NodeFree n \<in> set (trace sw)))
   \<and> (stop st = Inr s2 \<longrightarrow>
        worker_threads st = PyNone
        \<and> trace s2 = trace st @ map (\<lambda>nd. NodeFree (node_id nd)) (nodes st))
   \<and> (worker_threads s0 \<noteq> PyNone \<and> stop (calls cs s0) = Inr s3 \<longrightarrow>
        (\<exists>pre sched' post s'. cs = pre @ Wait sched' # post \<and> wait sched' (calls pre s0) = Inr s'
           \<and> \<not> list_ex is_start post))
   \<and> trace (calls [Start ns, Wait sched, Stop] (fresh svc)) =
       map (\<lambda>(idx, nd). ThreadStart idx) (enumerate1 ns)
       @ map (\<lambda>(idx, w). ThreadJoin idx) (enumerate1 (enumerate1 ns))
       @ map (\<lambda>nd. NodeFree (node_id nd)) ns"
  using worker_never_frees [of n svc idx nd] start_trace [of n ns s] wait_trace [of sched sw s1 n]
    stop_Inr [of st s2] stop_Inr [of "calls cs s0" s3] waited_history [of s0 cs]
    run_trace [of ns sched svc]
  by blast

theorem nodes_freed_only_by_stop_after_wait_witness:
  "wait sched0 (start two_nodes (fresh latency_service))
     = Inr (calls [Start two_nodes, Wait sched0] (fresh latency_service))
   \<and> stop (calls [Start two_nodes, Wait sched0] (fresh latency_service))
     = Inr (calls [Start two_nodes, Wait sched0, Stop] (fresh latency_service))
   \<and> worker_threads (fresh latency_service) \<noteq> PyNone
   \<and> worker_threads (calls [Start two_nodes, Wait sched0] (fresh latency_service)) = PyNone
   \<and> trace (calls [Start two_nodes, Wait sched0, Stop] (fresh latency_service))
     = trace (calls [Start two_nodes, Wait sched0] (fresh latency_service))
       @ map (\<lambda>nd. NodeFree (node_id nd)) (nodes (calls [Start two_nodes, Wait sched0] (fresh latency_service)))
   \<and> trace (calls [Start two_nodes, Wait sched0, Stop] (fresh latency_service))
     = [ThreadStart 1, ThreadStart 2, ThreadJoin 1, ThreadJoin 2, NodeFree 0, NodeFree 1]
   \<and> NodeFree 0 \<notin> set (fst (worker latency_service 1 (hd two_nodes)))
   \<and> NodeFree 0 \<notin> set (trace (calls [Start two_nodes, Wait sched0] (fresh latency_service)))
   \<and> (\<exists>pre sched' post s'. [Start two_nodes, Wait sched0] = pre @ Wait sched' # post
         \<and> wait sched' (calls pre (fresh latency_service)) = Inr s' \<and> \<not> list_ex is_start post)"
proof -
  let ?f = "fresh latency_service"
  let ?w = "calls [Start two_nodes, Wait sched0] ?f"
  let ?e = "calls [Start two_nodes, Wait sched0, Stop] ?f"
  have w: "wait sched0 (start two_nodes ?f) = Inr ?w"
    by (simp add: wait_def start_def Let_def split: prod.splits)
  have wt: "worker_threads ?w = PyNone"
    using wait_Inr [OF w] by simp
  have e: "stop ?w = Inr ?e"
  proof -
    have "calls [Start two_nodes, Wait sched0, Stop] ?f = calls [Stop] ?w"
      using calls_append [of "[Start two_nodes, Wait sched0]" "[Stop]" ?f] by simp
    then show ?thesis
      using wt by (simp add: stop_def)
  qed
  have f: "worker_threads ?f \<noteq> PyNone"
    by (simp add: fresh_def)
  have tr: "trace ?w = [ThreadStart 1, ThreadStart 2, ThreadJoin 1, ThreadJoin 2]" "nodes ?w = two_nodes"
    by (simp_all add: wait_def start_def Let_def fresh_def two_nodes_def enumerate1_def split: prod.splits)
  have ids: "map (\<lambda>nd. NodeFree (node_id nd)) two_nodes = [NodeFree 0, NodeFree 1]"
    by (simp add: two_nodes_def node_with_def)
  note inst = nodes_freed_only_by_stop_after_wait [of 0 latency_service 1 "hd two_nodes" two_nodes ?f
      sched0 "start two_nodes ?f" ?w ?w ?e ?f "[Start two_nodes, Wait sched0]" ?e]
  from inst w e f have
    a: "NodeFree 0 \<notin> set (fst (worker latency_service 1 (hd two_nodes)))"
    and b: "trace ?e = trace ?w @ map (\<lambda>nd. NodeFree (node_id nd)) (nodes ?w)"
    and c: "\<exists>pre sched' post s'. [Start two_nodes, Wait sched0] = pre @ Wait sched' # post
         \<and> wait sched' (calls pre ?f) = Inr s' \<and> \<not> list_ex is_start post"
    by blast+
  have d: "trace ?e = [ThreadStart 1, ThreadStart 2, ThreadJoin 1, ThreadJoin 2, NodeFree 0, NodeFree 1]"
    using b tr ids by simp
  have g: "NodeFree 0 \<notin> set (trace ?w)"
    using tr by simp
  from w e f wt a b c d g show ?thesis
    by blast
qed

end
